theory Spec2Isabelle
  imports Main
begin

section \<open>Configuration\<close>

text \<open>
  The application reads its settings through \<^verbatim>\<open>env.Get(key)\<close>, which yields a string
  for every key (the empty string when nothing is set). The loader itself is a separate
  package, so the configuration state is a parameter of every operation that reads it.
  The process environment read by \<^verbatim>\<open>os.Getenv\<close> is a partial map: a variable can be
  unset, and \<^verbatim>\<open>os.Getenv\<close> then yields the empty string.
\<close>

type_synonym config = "string \<Rightarrow> string"

type_synonym environ = "string \<rightharpoonup> string"

definition Getenv :: "environ \<Rightarrow> string \<Rightarrow> string" where
  "Getenv os key = (case os key of None \<Rightarrow> '''' | Some v \<Rightarrow> v)"

text \<open>
  \<^verbatim>\<open>strconv.ParseBool\<close> of the Go standard library accepts exactly twelve spellings;
  for any other string it returns \<^verbatim>\<open>false\<close> together with a syntax error.
\<close>

datatype error = ErrSyntax string | Err string

definition ParseBool :: "string \<Rightarrow> bool \<times> error option" where
  "ParseBool str =
     (if str \<in> set [''1'', ''t'', ''T'', ''true'', ''TRUE'', ''True''] then (True, None)
      else if str \<in> set [''0'', ''f'', ''F'', ''false'', ''FALSE'', ''False''] then (False, None)
      else (False, Some (ErrSyntax str)))"

text \<open>
  \<^verbatim>\<open>
  func (app *App) getHTTPSHost() string {
      host := env.Get("APP_HTTPS_HOST")
      if host == "" { host = env.Get("APP_HTTP_HOST") }
      if host == "" { host = "localhost" }
      return host
  }
  \<close>
\<close>

definition getHTTPSHost :: "config \<Rightarrow> string" where
  "getHTTPSHost env_Get =
     (let host = env_Get ''APP_HTTPS_HOST'';
          host = (if host = '''' then env_Get ''APP_HTTP_HOST'' else host);
          host = (if host = '''' then ''localhost'' else host)
      in host)"

section \<open>The HTTP engine as seen by the bootstrapper\<close>

text \<open>
  The routing engine is an external library. The bootstrapper only makes calls on it:
  \<^verbatim>\<open>Use\<close> appends a handler to the engine's handler chain, and each of the seven
  method-named calls registers a path with a handler chain. An engine is modelled by what
  it has received: the handlers attached with \<^verbatim>\<open>Use\<close>, in order, and the registration
  calls, in order. Every such call is taken to return; what the library does with a
  registration afterwards is not part of this development.

  Handlers are function values. Those the bootstrapper itself names are \<^verbatim>\<open>Logger\<close> and
  \<^verbatim>\<open>Recovery\<close> (attached by \<^verbatim>\<open>gin.Default()\<close>) and the closure \<^verbatim>\<open>secureFunc\<close> built
  in \<^verbatim>\<open>Run\<close>; every other handler comes from a registry and is a value of the
  parameter type \<open>'h\<close>.
\<close>

datatype 'h HandlerFunc = Logger | Recovery | SecureFunc | Hook 'h

datatype 'h registration =
    GET string "'h HandlerFunc list"
  | POST string "'h HandlerFunc list"
  | DELETE string "'h HandlerFunc list"
  | PATCH string "'h HandlerFunc list"
  | PUT string "'h HandlerFunc list"
  | OPTIONS string "'h HandlerFunc list"
  | HEAD string "'h HandlerFunc list"

record 'h Engine =
  group_Handlers :: "'h HandlerFunc list"
  registered :: "'h registration list"

definition gin_New :: "unit \<Rightarrow> 'h Engine" where
  "gin_New u = \<lparr>group_Handlers = [], registered = []\<rparr>"

definition Use :: "'h Engine \<Rightarrow> 'h HandlerFunc \<Rightarrow> 'h Engine" where
  "Use engine h = engine\<lparr>group_Handlers := group_Handlers engine @ [h]\<rparr>"

definition gin_Default :: "unit \<Rightarrow> 'h Engine" where
  "gin_Default u = Use (Use (gin_New ()) Logger) Recovery"

definition register :: "'h Engine \<Rightarrow> 'h registration \<Rightarrow> 'h Engine" where
  "register engine r = engine\<lparr>registered := registered engine @ [r]\<rparr>"

section \<open>Routes and their dispatch\<close>

record 'h Route =
  Method :: string
  Path :: string
  Handlers :: "'h HandlerFunc list"

text \<open>
  \<^verbatim>\<open>
  func (app *App) handleRoute(route routing.Route, ginEngine *gin.Engine) {
      switch route.Method {
      case "get":     ginEngine.GET(route.Path, route.Handlers...)
      case "post":    ginEngine.POST(route.Path, route.Handlers...)
      case "delete":  ginEngine.DELETE(route.Path, route.Handlers...)
      case "patch":   ginEngine.PATCH(route.Path, route.Handlers...)
      case "put":     ginEngine.PUT(route.Path, route.Handlers...)
      case "options": ginEngine.OPTIONS(route.Path, route.Handlers...)
      case "head":    ginEngine.HEAD(route.Path, route.Handlers...)
      }
  }
  \<close>
  The switch has no default case: a method string that matches none of the seven
  literals leaves the engine as it was.
\<close>

definition handleRoute :: "'h Route \<Rightarrow> 'h Engine \<Rightarrow> 'h Engine" where
  "handleRoute route ginEngine =
     (if Method route = ''get'' then register ginEngine (GET (Path route) (Handlers route))
      else if Method route = ''post'' then register ginEngine (POST (Path route) (Handlers route))
      else if Method route = ''delete'' then register ginEngine (DELETE (Path route) (Handlers route))
      else if Method route = ''patch'' then register ginEngine (PATCH (Path route) (Handlers route))
      else if Method route = ''put'' then register ginEngine (PUT (Path route) (Handlers route))
      else if Method route = ''options'' then register ginEngine (OPTIONS (Path route) (Handlers route))
      else if Method route = ''head'' then register ginEngine (HEAD (Path route) (Handlers route))
      else ginEngine)"

text \<open>
  The three attachment loops range over a registry's current content and return the
  engine they were given.
\<close>

definition integratePackages :: "'h HandlerFunc list \<Rightarrow> 'h Engine \<Rightarrow> 'h Engine" where
  "integratePackages integrations engine = foldl Use engine integrations"

definition useMiddlewares :: "'h HandlerFunc list \<Rightarrow> 'h Engine \<Rightarrow> 'h Engine" where
  "useMiddlewares middlewares engine = foldl Use engine middlewares"

definition registerRoutes :: "'h Engine \<Rightarrow> 'h Route list \<Rightarrow> 'h Engine" where
  "registerRoutes engine routes = foldl (\<lambda>e route. handleRoute route e) engine routes"

section \<open>Bootstrap\<close>

text \<open>
  \<^verbatim>\<open>Bootstrap\<close> is a straight line of calls into other packages, none of whose
  results it inspects. Its effect is the sequence of those calls, each taken to return.
  \<^verbatim>\<open>setAppMode\<close> reads \<^verbatim>\<open>MODE\<close> from the process environment and makes one
  \<^verbatim>\<open>gin.SetMode\<close> call.
\<close>

datatype Mode = DebugMode | ReleaseMode | TestMode

datatype db_handle = database_Resolve

datatype integration = Mysql db_handle

datatype boot_call =
    gin_SetMode Mode
  | env_Load
  | pkgintegrator_New
  | middlewaresengine_New
  | routing_New
  | database_New
  | Integrate integration

definition setAppMode :: "environ \<Rightarrow> boot_call list" where
  "setAppMode os =
     (let mode = Getenv os ''MODE''
      in if mode = ''release'' then [gin_SetMode ReleaseMode]
         else if mode = ''test'' then [gin_SetMode TestMode]
         else [gin_SetMode DebugMode])"

definition Bootstrap :: "environ \<Rightarrow> boot_call list" where
  "Bootstrap os =
     setAppMode os @
     [env_Load] @
     [pkgintegrator_New] @
     [middlewaresengine_New] @
     [routing_New] @
     [database_New] @
     [Integrate (Mysql database_Resolve)]"

section \<open>Run\<close>

text \<open>
  \<^verbatim>\<open>Run\<close> works on three engines, held in the variables \<^verbatim>\<open>httpGinEngine\<close>,
  \<^verbatim>\<open>httpsGinEngine\<close> and \<^verbatim>\<open>redirectEngine\<close>. What it does on the calling path is
  a sequence of events: the creation of the log file, the assignment of the default
  writer, the launch \<^verbatim>\<open>go httpsGinEngine.RunTLS(host, certFile, keyFile)\<close> of the TLS
  listener on a path of its own, and the calls \<^verbatim>\<open>engine.Run(addr)\<close> made on the calling
  path itself. Each listener event carries the engine as it is at that moment.

  A call \<^verbatim>\<open>engine.Run(addr)\<close> serves for as long as the listener lives: it either keeps
  the calling path for good or comes back (with an error, which \<^verbatim>\<open>Run\<close> drops). Which
  of the two happens is decided outside the program, so it is a parameter, one outcome
  for each engine.
\<close>

datatype engine_var = httpGinEngine | httpsGinEngine | redirectEngine

datatype outcome = Returns | Blocks

datatype 'h event =
    os_Create string
  | set_DefaultWriter
  | go_RunTLS engine_var "'h Engine" string string string
  | call_Run engine_var "'h Engine" string

record 'h world =
  env_Get :: config
  GetIntegrations :: "'h HandlerFunc list"
  GetRoutes :: "'h Route list"
  listener :: "engine_var \<Rightarrow> outcome"

definition Run :: "'h world \<Rightarrow> string \<Rightarrow> 'h event list \<times> outcome" where
  "Run w portNumber0 =
     (let portNumber = (if portNumber0 = '''' then ''80'' else portNumber0);
          logs = [os_Create ''logs/app.log'', set_DefaultWriter];
          httpsOn = fst (ParseBool (env_Get w ''APP_HTTPS_ON''));
          redirectToHTTPS = fst (ParseBool (env_Get w ''APP_REDIRECT_HTTP_TO_HTTPS''));
          tls =
            (if httpsOn then
               (let e = integratePackages (GetIntegrations w) (gin_Default ());
                    e = integratePackages (GetIntegrations w) e;
                    e = registerRoutes e (GetRoutes w);
                    certFile = env_Get w ''APP_HTTPS_CERT_FILE_PATH'';
                    keyFile = env_Get w ''APP_HTTPS_KEY_FILE_PATH'';
                    host = getHTTPSHost (env_Get w) @ '':443''
                in [go_RunTLS httpsGinEngine e host certFile keyFile])
             else []);
          redirect =
            (if httpsOn \<and> redirectToHTTPS then
               [call_Run redirectEngine (Use (gin_New ()) SecureFunc) ('':'' @ portNumber)]
             else [])
      in if httpsOn \<and> redirectToHTTPS \<and> listener w redirectEngine = Blocks then
           (logs @ tls @ redirect, Blocks)
         else
           (let e = integratePackages (GetIntegrations w) (gin_Default ());
                e = integratePackages (GetIntegrations w) e;
                e = registerRoutes e (GetRoutes w)
            in (logs @ tls @ redirect @ [call_Run httpGinEngine e ('':'' @ portNumber)],
                listener w httpGinEngine)))"

text \<open>The listener starts of a run, in order: the engine variable and the address.\<close>

fun listeners :: "'h event list \<Rightarrow> (engine_var \<times> string) list" where
  "listeners [] = []"
| "listeners (go_RunTLS v e host certFile keyFile # es) = (v, host) # listeners es"
| "listeners (call_Run v e addr # es) = (v, addr) # listeners es"
| "listeners (os_Create f # es) = listeners es"
| "listeners (set_DefaultWriter # es) = listeners es"

text \<open>
  The engines a run starts under one engine variable, in order, whether launched on a path
  of their own or started by a call on the calling path.
\<close>

fun started :: "engine_var \<Rightarrow> 'h event list \<Rightarrow> 'h Engine list" where
  "started x [] = []"
| "started x (go_RunTLS v e host certFile keyFile # es) =
     (if v = x then e # started x es else started x es)"
| "started x (call_Run v e addr # es) =
     (if v = x then e # started x es else started x es)"
| "started x (os_Create f # es) = started x es"
| "started x (set_DefaultWriter # es) = started x es"

text \<open>
  Concrete environments with one registered hook and one route. In the first both flags
  are on and the redirect listener serves and keeps the calling path; in the second its
  start call comes back; in the third no setting is present at all.
\<close>

definition https_env :: config where
  "https_env key =
     (if key = ''APP_HTTPS_ON'' then ''true''
      else if key = ''APP_REDIRECT_HTTP_TO_HTTPS'' then ''true''
      else '''')"

definition serving_world :: "nat world" where
  "serving_world =
     \<lparr>env_Get = https_env,
      GetIntegrations = [Hook 0],
      GetRoutes = [\<lparr>Method = ''get'', Path = ''/'', Handlers = [Hook 1]\<rparr>],
      listener = (\<lambda>v. Blocks)\<rparr>"

definition failing_world :: "nat world" where
  "failing_world = serving_world\<lparr>listener := (\<lambda>v. Returns)\<rparr>"

definition plain_world :: "nat world" where
  "plain_world = serving_world\<lparr>env_Get := (\<lambda>key. '''')\<rparr>"

section \<open>The redirect middleware in the handler chain\<close>

text \<open>
  \<^verbatim>\<open>
  secureFunc := func() gin.HandlerFunc {
      return func(c *gin.Context) {
          secureMiddleware := secure.New(secure.Options{
              SSLRedirect: true,
              SSLHost:     app.getHTTPSHost() + ":443",
          })
          err := secureMiddleware.Process(c.Writer, c.Request)
          // If there was an error, do not continue.
          if err != nil {
              return
          }
          c.Next()
      }
  }()
  \<close>
  A handler is a function on the request context. What it can do to the chain is what the
  engine's context offers: \<^verbatim>\<open>c.Next()\<close> runs the handlers still pending,
  \<^verbatim>\<open>c.Abort()\<close> drops them, \<^verbatim>\<open>c.Error(err)\<close> records an error on the context, and
  returning hands control back to the loop that invoked the handler. A handler body is
  a term over these operations; \<open>Call f p q\<close> makes an outside call \<open>f\<close> on the
  request state (writer and request) and goes on as \<open>p\<close> when the call gave an error
  and as \<open>q\<close> when it gave none.

  The engine keeps the chain and an index into it; the handlers behind the index are the
  pending ones, and \<^verbatim>\<open>Abort\<close> moves the index behind the last handler. The context
  here holds the pending handlers directly. The engine serves a request by one call
  of \<^verbatim>\<open>Next\<close> on a context whose pending handlers are the whole chain. The loop of
  \<^verbatim>\<open>Next\<close> goes on to the next pending handler whenever a handler returns.
\<close>

datatype 'r body =
    Return
  | Call "'r \<Rightarrow> 'r \<times> error option" "'r body" "'r body"
  | CallNext "'r body"
  | CallAbort "'r body"
  | CallError error "'r body"

record 'r Context =
  pending :: "'r body list"
  st :: 'r
  Errors :: "error list"

record Options =
  SSLRedirect :: bool
  SSLHost :: string

text \<open>
  The closure, with the library call \<^verbatim>\<open>secure.New(options).Process\<close> as a parameter:
  given the options it acts on the request state and yields an error or none.
\<close>

definition secureFunc ::
    "(Options \<Rightarrow> 'r \<Rightarrow> 'r \<times> error option) \<Rightarrow> config \<Rightarrow> 'r body" where
  "secureFunc Process env =
     Call (Process \<lparr>SSLRedirect = True, SSLHost = getHTTPSHost env @ '':443''\<rparr>)
       Return
       (CallNext Return)"



function (sequential) exec :: "'r body \<Rightarrow> 'r Context \<Rightarrow> 'r Context"
  and Next :: "'r Context \<Rightarrow> 'r Context" where
  "exec Return c = c"
| "exec (Call f p q) c =
     (case f (st c) of (s, err) \<Rightarrow> exec (if err \<noteq> None then p else q) (c\<lparr>st := s\<rparr>))"
| "exec (CallNext p) c = exec p (Next c)"
| "exec (CallAbort p) c = exec p (c\<lparr>pending := []\<rparr>)"
| "exec (CallError e p) c = exec p (c\<lparr>Errors := Errors c @ [e]\<rparr>)"
| "Next c = (case pending c of [] \<Rightarrow> c | h # hs \<Rightarrow> Next (exec h (c\<lparr>pending := hs\<rparr>)))"
  by pat_completeness auto

text \<open>
  Both functions are total: a handler body gets smaller with every step, and neither a
  body nor the loop ever adds a pending handler.
\<close>

termination
proof -
  have le:
    "exec_Next_dom (Inl (p, c)) \<Longrightarrow> length (pending (exec p c)) \<le> length (pending c)"
    "exec_Next_dom (Inr c') \<Longrightarrow> length (pending (Next c')) \<le> length (pending c')"
    for p and c :: "'r Context" and c' :: "'r Context"
  proof (induct p c and c' rule: exec_Next.pinduct)
    case (1 c)
    then show ?case by (simp add: exec.psimps)
  next
    case (2 f p q c)
    obtain s err where f: "f (st c) = (s, err)" by (cases "f (st c)")
    from 2(2)[OF f[symmetric]] 2(1) f show ?case by (simp add: exec.psimps)
  next
    case (3 p c)
    then show ?case by (simp add: exec.psimps)
  next
    case (4 p c)
    then show ?case by (simp add: exec.psimps)
  next
    case (5 e p c)
    then show ?case by (simp add: exec.psimps)
  next
    case (6 c)
    show ?case
    proof (cases "pending c")
      case Nil
      with 6(1) show ?thesis by (simp add: Next.psimps)
    next
      case (Cons h hs)
      from 6(2)[OF Cons] 6(3)[OF Cons] 6(1) Cons show ?thesis by (simp add: Next.psimps)
    qed
  qed
  show ?thesis
    by (relation "inv_image (less_than <*lex*> less_than)
          (\<lambda>x. case x of Inl (p, c) \<Rightarrow> (length (pending c), Suc (size p))
                        | Inr c \<Rightarrow> (length (pending c), 0))")
       (auto dest!: le)
qed

declare Next.simps [simp del]

section \<open>Attachment loops\<close>

lemma group_Handlers_foldl_Use:
  "group_Handlers (foldl Use e hs) = group_Handlers e @ hs"
  by (induction hs arbitrary: e) (simp_all add: Use_def)

lemma group_Handlers_integratePackages:
  "group_Handlers (integratePackages hs e) = group_Handlers e @ hs"
  by (simp add: integratePackages_def group_Handlers_foldl_Use)

lemma group_Handlers_handleRoute:
  "group_Handlers (handleRoute r e) = group_Handlers e"
  by (simp add: handleRoute_def register_def)

lemma group_Handlers_registerRoutes:
  "group_Handlers (registerRoutes e rs) = group_Handlers e"
  unfolding registerRoutes_def
  by (induction rs arbitrary: e) (simp_all add: group_Handlers_handleRoute)

section \<open>Host resolution\<close>

text \<open>
  C3. For every configuration state, \<^verbatim>\<open>getHTTPSHost\<close> returns the \<^verbatim>\<open>APP_HTTPS_HOST\<close>
  setting when it is not empty, otherwise the \<^verbatim>\<open>APP_HTTP_HOST\<close> setting when that is
  not empty, otherwise the literal \<^verbatim>\<open>localhost\<close>. The result is a function of the
  configuration alone.
\<close>

theorem getHTTPSHost_precedence:
  "getHTTPSHost env =
     (if env ''APP_HTTPS_HOST'' \<noteq> '''' then env ''APP_HTTPS_HOST''
      else if env ''APP_HTTP_HOST'' \<noteq> '''' then env ''APP_HTTP_HOST''
      else ''localhost'')"
  by (simp add: getHTTPSHost_def Let_def)

section \<open>Route dispatch\<close>

text \<open>
  C4. For a route whose method string is one of \<^verbatim>\<open>get\<close>, \<^verbatim>\<open>post\<close>, \<^verbatim>\<open>delete\<close>,
  \<^verbatim>\<open>patch\<close>, \<^verbatim>\<open>put\<close>, \<^verbatim>\<open>options\<close>, \<^verbatim>\<open>head\<close>, \<^verbatim>\<open>handleRoute\<close> makes the
  registration call of the same name on the engine exactly once, with the route's path and
  handler chain: the engine's registrations grow by that one call and nothing else of
  the engine changes.
\<close>

theorem handleRoute_dispatch:
  "handleRoute (route\<lparr>Method := ''get''\<rparr>) e =
     e\<lparr>registered := registered e @ [GET (Path route) (Handlers route)]\<rparr> \<and>
   handleRoute (route\<lparr>Method := ''post''\<rparr>) e =
     e\<lparr>registered := registered e @ [POST (Path route) (Handlers route)]\<rparr> \<and>
   handleRoute (route\<lparr>Method := ''delete''\<rparr>) e =
     e\<lparr>registered := registered e @ [DELETE (Path route) (Handlers route)]\<rparr> \<and>
   handleRoute (route\<lparr>Method := ''patch''\<rparr>) e =
     e\<lparr>registered := registered e @ [PATCH (Path route) (Handlers route)]\<rparr> \<and>
   handleRoute (route\<lparr>Method := ''put''\<rparr>) e =
     e\<lparr>registered := registered e @ [PUT (Path route) (Handlers route)]\<rparr> \<and>
   handleRoute (route\<lparr>Method := ''options''\<rparr>) e =
     e\<lparr>registered := registered e @ [OPTIONS (Path route) (Handlers route)]\<rparr> \<and>
   handleRoute (route\<lparr>Method := ''head''\<rparr>) e =
     e\<lparr>registered := registered e @ [HEAD (Path route) (Handlers route)]\<rparr>"
  by (simp add: handleRoute_def register_def)

text \<open>
  C5. For a route whose method string is none of the seven (an upper-case \<^verbatim>\<open>GET\<close>
  included), \<^verbatim>\<open>handleRoute\<close> makes no registration call and raises no error: it
  returns the engine unchanged.
\<close>

theorem handleRoute_unknown_method:
  "Method route \<notin> set [''get'', ''post'', ''delete'', ''patch'', ''put'', ''options'', ''head'']
   \<Longrightarrow> handleRoute route e = e"
  by (simp add: handleRoute_def)

theorem handleRoute_unknown_method_witness:
  "''GET'' \<notin> set [''get'', ''post'', ''delete'', ''patch'', ''put'', ''options'', ''head''] \<and>
   handleRoute \<lparr>Method = ''GET'', Path = ''/'', Handlers = [Hook (0::nat)]\<rparr> (gin_Default ())
     = gin_Default ()"
  using handleRoute_unknown_method
    [of "\<lparr>Method = ''GET'', Path = ''/'', Handlers = [Hook (0::nat)]\<rparr>" "gin_Default ()"]
  by simp

section \<open>Bootstrap order\<close>

text \<open>
  C6. Every call of \<^verbatim>\<open>Bootstrap\<close> makes its calls in one fixed order: it sets the run
  mode from \<^verbatim>\<open>MODE\<close> (release for \<^verbatim>\<open>release\<close>, test for \<^verbatim>\<open>test\<close>, debug when
  the variable is unset or holds anything else), loads the environment, initialises the
  package integrator, the middleware engine, the routing table and the database
  connector, and registers the database handle as a package integration.
\<close>

theorem Bootstrap_order:
  "Bootstrap os =
     [gin_SetMode (if os ''MODE'' = Some ''release'' then ReleaseMode
                   else if os ''MODE'' = Some ''test'' then TestMode
                   else DebugMode),
      env_Load,
      pkgintegrator_New,
      middlewaresengine_New,
      routing_New,
      database_New,
      Integrate (Mysql database_Resolve)]"
  by (simp add: Bootstrap_def setAppMode_def Getenv_def Let_def split: option.splits)

section \<open>Flags and listeners of a run\<close>

lemma ParseBool_error_False: "snd (ParseBool s) \<noteq> None \<Longrightarrow> fst (ParseBool s) = False"
  by (simp add: ParseBool_def split: if_splits)

lemma group_Handlers_app_engine:
  "group_Handlers (registerRoutes (integratePackages hs (integratePackages hs e)) rs)
     = group_Handlers e @ hs @ hs"
  by (simp add: group_Handlers_registerRoutes group_Handlers_integratePackages)

text \<open>
  With both flags on and a redirect listener that serves, the run starts two listeners
  and never comes to the plaintext one: the call \<^verbatim>\<open>redirectEngine.Run\<close> keeps the
  calling path.
\<close>

theorem Run_three_listeners_counterexample:
  "ParseBool (env_Get serving_world ''APP_HTTPS_ON'') = (True, None) \<and>
   ParseBool (env_Get serving_world ''APP_REDIRECT_HTTP_TO_HTTPS'') = (True, None) \<and>
   listeners (fst (Run serving_world ''8080'')) =
     [(httpsGinEngine, ''localhost:443''), (redirectEngine, '':8080'')] \<and>
   (httpGinEngine, '':8080'') \<notin> set (listeners (fst (Run serving_world ''8080'')))"
  by (simp add: Run_def Let_def serving_world_def https_env_def ParseBool_def getHTTPSHost_def)

text \<open>
  C1, as amended. When \<^verbatim>\<open>APP_HTTPS_ON\<close> and \<^verbatim>\<open>APP_REDIRECT_HTTP_TO_HTTPS\<close> both
  parse to true, \<^verbatim>\<open>Run\<close> launches the TLS listener on port 443 of the HTTPS host on a
  path of its own (\<^verbatim>\<open>go httpsGinEngine.RunTLS\<close>, on the engine that carries the
  integrations and routes, with the configured certificate and key files) and then starts
  the redirect listener on the supplied port (80 for the empty string) by a call on the
  calling path; it goes on to start the plaintext listener on that same port, again by a
  call on the calling path, exactly when the start call of the redirect listener returns.
  These are all the events of the run after the log setup.
\<close>

theorem Run_https_redirect_listeners:
  assumes "ParseBool (env_Get w ''APP_HTTPS_ON'') = (True, None)"
    and "ParseBool (env_Get w ''APP_REDIRECT_HTTP_TO_HTTPS'') = (True, None)"
  shows "fst (Run w p) =
     [os_Create ''logs/app.log'', set_DefaultWriter,
      go_RunTLS httpsGinEngine
        (registerRoutes
           (integratePackages (GetIntegrations w)
              (integratePackages (GetIntegrations w) (gin_Default ())))
           (GetRoutes w))
        (getHTTPSHost (env_Get w) @ '':443'')
        (env_Get w ''APP_HTTPS_CERT_FILE_PATH'')
        (env_Get w ''APP_HTTPS_KEY_FILE_PATH''),
      call_Run redirectEngine (Use (gin_New ()) SecureFunc)
        ('':'' @ (if p = '''' then ''80'' else p))] @
     (if listener w redirectEngine = Returns
      then [call_Run httpGinEngine
              (registerRoutes
                 (integratePackages (GetIntegrations w)
                    (integratePackages (GetIntegrations w) (gin_Default ())))
                 (GetRoutes w))
              ('':'' @ (if p = '''' then ''80'' else p))]
      else []) \<and>
   listeners (fst (Run w p)) =
     [(httpsGinEngine, getHTTPSHost (env_Get w) @ '':443''),
      (redirectEngine, '':'' @ (if p = '''' then ''80'' else p))] @
     (if listener w redirectEngine = Returns
      then [(httpGinEngine, '':'' @ (if p = '''' then ''80'' else p))] else [])"
  using assms by (cases "listener w redirectEngine") (simp_all add: Run_def Let_def)

theorem Run_https_redirect_listeners_witness:
  "ParseBool (env_Get failing_world ''APP_HTTPS_ON'') = (True, None) \<and>
   ParseBool (env_Get failing_world ''APP_REDIRECT_HTTP_TO_HTTPS'') = (True, None) \<and>
   fst (Run failing_world ''8080'') =
     [os_Create ''logs/app.log'', set_DefaultWriter,
      go_RunTLS httpsGinEngine
        \<lparr>group_Handlers = [Logger, Recovery, Hook 0, Hook 0],
         registered = [GET ''/'' [Hook 1]]\<rparr> ''localhost:443'' '''' '''',
      call_Run redirectEngine \<lparr>group_Handlers = [SecureFunc], registered = []\<rparr> '':8080'',
      call_Run httpGinEngine
        \<lparr>group_Handlers = [Logger, Recovery, Hook 0, Hook 0],
         registered = [GET ''/'' [Hook 1]]\<rparr> '':8080''] \<and>
   listeners (fst (Run failing_world ''8080'')) =
     [(httpsGinEngine, ''localhost:443''), (redirectEngine, '':8080''),
      (httpGinEngine, '':8080'')]"
proof -
  have a: "ParseBool (env_Get failing_world ''APP_HTTPS_ON'') = (True, None)"
    by (simp add: failing_world_def serving_world_def https_env_def ParseBool_def)
  have b: "ParseBool (env_Get failing_world ''APP_REDIRECT_HTTP_TO_HTTPS'') = (True, None)"
    by (simp add: failing_world_def serving_world_def https_env_def ParseBool_def)
  show ?thesis
    using a b Run_https_redirect_listeners [OF a b, of "''8080''"]
    by (simp add: failing_world_def serving_world_def https_env_def getHTTPSHost_def
        integratePackages_def registerRoutes_def handleRoute_def register_def Use_def
        gin_Default_def gin_New_def)
qed

text \<open>
  C10. When both flags parse to true, the redirect listener is started by a call on the
  calling path, after the TLS listener has been launched, and the start call of the
  plaintext listener is the next event after it and is there only when the start call of
  the redirect listener has returned. When that call does not return, the run ends with
  it and does not return either.
\<close>

theorem Run_redirect_before_plaintext:
  assumes "ParseBool (env_Get w ''APP_HTTPS_ON'') = (True, None)"
    and "ParseBool (env_Get w ''APP_REDIRECT_HTTP_TO_HTTPS'') = (True, None)"
  shows "Run w p =
     (let port = (if p = '''' then ''80'' else p);
          e = registerRoutes
                (integratePackages (GetIntegrations w)
                   (integratePackages (GetIntegrations w) (gin_Default ())))
                (GetRoutes w);
          before = [os_Create ''logs/app.log'', set_DefaultWriter,
                    go_RunTLS httpsGinEngine e (getHTTPSHost (env_Get w) @ '':443'')
                      (env_Get w ''APP_HTTPS_CERT_FILE_PATH'')
                      (env_Get w ''APP_HTTPS_KEY_FILE_PATH''),
                    call_Run redirectEngine (Use (gin_New ()) SecureFunc) ('':'' @ port)]
      in case listener w redirectEngine of
           Blocks \<Rightarrow> (before, Blocks)
         | Returns \<Rightarrow> (before @ [call_Run httpGinEngine e ('':'' @ port)],
                        listener w httpGinEngine))"
  using assms by (cases "listener w redirectEngine") (simp_all add: Run_def Let_def)

theorem Run_redirect_before_plaintext_witness:
  "ParseBool (env_Get failing_world ''APP_HTTPS_ON'') = (True, None) \<and>
   ParseBool (env_Get failing_world ''APP_REDIRECT_HTTP_TO_HTTPS'') = (True, None) \<and>
   Run failing_world ''8080'' =
     ([os_Create ''logs/app.log'', set_DefaultWriter,
       go_RunTLS httpsGinEngine
         \<lparr>group_Handlers = [Logger, Recovery, Hook 0, Hook 0],
          registered = [GET ''/'' [Hook 1]]\<rparr> ''localhost:443'' '''' '''',
       call_Run redirectEngine \<lparr>group_Handlers = [SecureFunc], registered = []\<rparr> '':8080'',
       call_Run httpGinEngine
         \<lparr>group_Handlers = [Logger, Recovery, Hook 0, Hook 0],
          registered = [GET ''/'' [Hook 1]]\<rparr> '':8080''],
      Returns)"
proof -
  have a: "ParseBool (env_Get failing_world ''APP_HTTPS_ON'') = (True, None)"
    by (simp add: failing_world_def serving_world_def https_env_def ParseBool_def)
  have b: "ParseBool (env_Get failing_world ''APP_REDIRECT_HTTP_TO_HTTPS'') = (True, None)"
    by (simp add: failing_world_def serving_world_def https_env_def ParseBool_def)
  show ?thesis
    using a b Run_redirect_before_plaintext [OF a b, of "''8080''"]
    by (simp add: failing_world_def serving_world_def https_env_def getHTTPSHost_def
        integratePackages_def registerRoutes_def handleRoute_def register_def Use_def
        gin_Default_def gin_New_def Let_def)
qed

text \<open>
  With both flags on and a redirect listener that serves, the run never comes to the
  plaintext branch: the TLS engine is started with the one registered hook attached twice,
  no engine is started under \<^verbatim>\<open>httpGinEngine\<close>, and the run does not return.
\<close>

theorem Run_plaintext_branch_counterexample:
  "ParseBool (env_Get serving_world ''APP_HTTPS_ON'') = (True, None) \<and>
   ParseBool (env_Get serving_world ''APP_REDIRECT_HTTP_TO_HTTPS'') = (True, None) \<and>
   GetIntegrations serving_world = [Hook 0] \<and>
   started httpsGinEngine (fst (Run serving_world ''8080'')) =
     [\<lparr>group_Handlers = [Logger, Recovery, Hook 0, Hook 0],
       registered = [GET ''/'' [Hook 1]]\<rparr>] \<and>
   started httpGinEngine (fst (Run serving_world ''8080'')) = [] \<and>
   snd (Run serving_world ''8080'') = Blocks"
  by (simp add: Run_def Let_def serving_world_def https_env_def ParseBool_def getHTTPSHost_def
      integratePackages_def registerRoutes_def handleRoute_def register_def Use_def
      gin_Default_def gin_New_def)

text \<open>
  C7, as amended. The TLS branch and the plaintext branch each apply
  \<^verbatim>\<open>integratePackages\<close> twice to their engine before starting it: the engine carries
  the handlers of \<^verbatim>\<open>gin.Default()\<close> followed by the registered integrations and by the
  registered integrations once more, so every hook is attached twice as often as the
  registry holds it, and nothing removes the duplicates. A run starts that engine under
  \<^verbatim>\<open>httpsGinEngine\<close> exactly when \<^verbatim>\<open>APP_HTTPS_ON\<close> parses to true, and under
  \<^verbatim>\<open>httpGinEngine\<close> in every case but one: when both flags parse to true and the start
  call of the redirect listener does not return, the plaintext branch is not reached and
  no engine is started under \<^verbatim>\<open>httpGinEngine\<close>.
\<close>

theorem Run_attaches_integrations_twice:
  "(let e = registerRoutes
              (integratePackages (GetIntegrations w)
                 (integratePackages (GetIntegrations w) (gin_Default ())))
              (GetRoutes w);
        httpsOn = fst (ParseBool (env_Get w ''APP_HTTPS_ON''));
        redirectToHTTPS = fst (ParseBool (env_Get w ''APP_REDIRECT_HTTP_TO_HTTPS''))
    in started httpsGinEngine (fst (Run w p)) = (if httpsOn then [e] else []) \<and>
       started httpGinEngine (fst (Run w p)) =
         (if httpsOn \<and> redirectToHTTPS \<and> listener w redirectEngine = Blocks then [] else [e]) \<and>
       group_Handlers e =
         group_Handlers (gin_Default ()) @ GetIntegrations w @ GetIntegrations w \<and>
       (\<forall>h. count_list (group_Handlers e) h =
              count_list (group_Handlers (gin_Default ())) h
                + 2 * count_list (GetIntegrations w) h))"
  by (simp add: Run_def Let_def group_Handlers_app_engine del: count_list.simps)

text \<open>
  C8. When the value of \<^verbatim>\<open>APP_HTTPS_ON\<close> does not parse as a boolean (the empty string,
  for one), the error is dropped and the flag is false: the run neither launches the TLS
  listener nor starts the redirect listener, and its only listener is the plaintext one.
\<close>

theorem Run_unparsable_https_flag:
  assumes "snd (ParseBool (env_Get w ''APP_HTTPS_ON'')) \<noteq> None"
  shows "fst (ParseBool (env_Get w ''APP_HTTPS_ON'')) = False \<and>
     Run w p =
       ([os_Create ''logs/app.log'', set_DefaultWriter,
         call_Run httpGinEngine
           (registerRoutes
              (integratePackages (GetIntegrations w)
                 (integratePackages (GetIntegrations w) (gin_Default ())))
              (GetRoutes w))
           ('':'' @ (if p = '''' then ''80'' else p))],
        listener w httpGinEngine)"
  using ParseBool_error_False [OF assms] by (simp add: Run_def Let_def)

theorem Run_unparsable_https_flag_witness:
  "snd (ParseBool (env_Get plain_world ''APP_HTTPS_ON'')) \<noteq> None \<and>
   env_Get plain_world ''APP_HTTPS_ON'' = '''' \<and>
   Run plain_world ''8080'' =
     ([os_Create ''logs/app.log'', set_DefaultWriter,
       call_Run httpGinEngine
         \<lparr>group_Handlers = [Logger, Recovery, Hook 0, Hook 0],
          registered = [GET ''/'' [Hook 1]]\<rparr> '':8080''],
      Blocks)"
proof -
  have a: "snd (ParseBool (env_Get plain_world ''APP_HTTPS_ON'')) \<noteq> None"
    by (simp add: plain_world_def serving_world_def ParseBool_def)
  show ?thesis
    using a Run_unparsable_https_flag [OF a, of "''8080''"]
    by (simp add: plain_world_def serving_world_def integratePackages_def registerRoutes_def
        handleRoute_def register_def Use_def gin_Default_def gin_New_def)
qed

text \<open>
  C9. For the call \<^verbatim>\<open>Run("")\<close> the plaintext listener is bound to port 80: the
  addresses the run passes to the start call of the plaintext engine are the single
  address \<^verbatim>\<open>:80\<close>, or none in the one case where the run does not come to that call.
\<close>

theorem Run_empty_port:
  "map snd (filter (\<lambda>l. fst l = httpGinEngine) (listeners (fst (Run w '''')))) =
     (if fst (ParseBool (env_Get w ''APP_HTTPS_ON'')) \<and>
         fst (ParseBool (env_Get w ''APP_REDIRECT_HTTP_TO_HTTPS'')) \<and>
         listener w redirectEngine = Blocks
      then [] else ['':80''])"
  by (simp add: Run_def Let_def)

section \<open>The redirect middleware and the rest of the chain\<close>

lemma Next_Cons: "Next (c\<lparr>pending := h # hs\<rparr>) = Next (exec h (c\<lparr>pending := hs\<rparr>))"
  by (subst Next.simps) simp

lemma pending_exec_Next:
  fixes p :: "'r body" and d c :: "'r Context"
  shows "length (pending (exec p d)) \<le> length (pending d)"
    and "pending (Next c) = []"
proof (induction p d and c rule: exec_Next.induct)
  case (6 c)
  then show ?case
    by (subst Next.simps) (simp split: list.splits)
qed (auto split: prod.splits)

lemma Next_Next: "Next (Next c) = Next c"
  by (subst Next.simps) (simp add: pending_exec_Next(2))


text \<open>
  Whether the library call gives an error or not makes no difference to the chain: in
  both cases the pending handlers run on the request state the call has left.
\<close>

lemma secureFunc_transparent:
  "Next (c\<lparr>pending := secureFunc Process env # rest\<rparr>) =
     Next (c\<lparr>pending := rest,
             st := fst (Process \<lparr>SSLRedirect = True, SSLHost = getHTTPSHost env @ '':443''\<rparr> (st c))\<rparr>)"
  by (cases "Process \<lparr>SSLRedirect = True, SSLHost = getHTTPSHost env @ '':443''\<rparr> (st c)")
     (simp add: Next_Cons secureFunc_def Next_Next)



end
